theory Spec2Isabelle
  imports Complex_Main
begin

section \<open>The ping input plugin (plugins/inputs/ping/ping.go)\<close>

text \<open>
  A shallow embedding of the ping plugin: the argument builder \<open>args\<close>, the output parser
  \<open>processPingOutput\<close> with its three helpers, the probe \<open>pingToURL\<close> and the default
  runner \<open>hostPinger\<close>.

  Go strings are byte sequences, here \<open>string\<close>. Go's \<open>int\<close> is taken to be 64 bits wide
  (amd64, arm64) and is modelled by \<open>int\<close>, with the wrap-around written out at the two
  subtractions the code performs. An index that is out of range is a run-time panic in Go;
  it is a value of the model.
\<close>

subsection \<open>Library functions on strings (package strings)\<close>

definition HasPrefix :: "string \<Rightarrow> string \<Rightarrow> bool" where
  "HasPrefix s p = (take (length p) s = p)"

text \<open>\<open>strings.Contains(s, substr)\<close>: \<open>substr\<close> occurs in \<open>s\<close> at some offset.\<close>

fun Contains :: "string \<Rightarrow> string \<Rightarrow> bool" where
  "Contains [] sub = (sub = [])"
| "Contains (c # cs) sub = (HasPrefix (c # cs) sub \<or> Contains cs sub)"

text \<open>
  \<open>strings.Split(s, sep)\<close> for a non-empty separator: the pieces between the leftmost,
  non-overlapping occurrences of \<open>sep\<close>; a string without the separator is the only piece.
  \<open>SplitFrom sep cur s\<close> scans \<open>s\<close> with the piece read so far in \<open>cur\<close>. (For an empty
  separator Go cuts after each UTF-8 sequence; the plugin never does that, and the model
  cuts after each byte.)
\<close>

function SplitFrom :: "string \<Rightarrow> string \<Rightarrow> string \<Rightarrow> string list" where
  "SplitFrom sep cur [] = [cur]"
| "SplitFrom sep cur (c # cs) =
     (if sep \<noteq> [] \<and> HasPrefix (c # cs) sep
      then cur # SplitFrom sep [] (drop (length sep) (c # cs))
      else SplitFrom sep (cur @ [c]) cs)"
  by pat_completeness auto
termination
  by (relation "measure (\<lambda>(sep, cur, s). length s)") auto

definition Split :: "string \<Rightarrow> string \<Rightarrow> string list" where
  "Split s sep = (if sep = [] then map (\<lambda>c. [c]) s else SplitFrom sep [] s)"

subsection \<open>Library functions on integers (package strconv)\<close>

datatype num_err = ErrSyntax | ErrRange

text \<open>
  The errors of the program, as values. \<open>ExitError ws msg\<close> is an \<open>*exec.ExitError\<close>; \<open>ws\<close>
  is \<open>Some st\<close> when its \<open>Sys()\<close> is a \<open>syscall.WaitStatus\<close> whose \<open>ExitStatus()\<close> is
  \<open>st\<close>. \<open>Errorf\<close> keeps the format and its arguments instead of the rendered text.
\<close>

datatype 'e fmt_arg = ArgS string | ArgE 'e

datatype go_error =
    ErrorsNew string
  | NumError string string num_err
  | LookupError string
  | ExitError "int option" string
  | ExecError string
  | Errorf string "go_error fmt_arg list"

definition isDigit :: "char \<Rightarrow> bool" where
  "isDigit c = (c \<in> set ''0123456789'')"

definition digitVal :: "char \<Rightarrow> int" where
  "digitVal c = of_char c - 48"

definition maxUint64 :: int where
  "maxUint64 = 18446744073709551615"

text \<open>
  The digit loop of \<open>strconv.ParseUint(s, 10, 64)\<close>: a byte that is no decimal digit is a
  syntax error with value 0; an overflow ends the loop at once with the largest value and a
  range error, before the rest of the string is looked at.
\<close>

fun ParseUintLoop :: "string \<Rightarrow> int \<Rightarrow> int \<times> num_err option" where
  "ParseUintLoop [] n = (n, None)"
| "ParseUintLoop (c # cs) n =
     (if \<not> isDigit c then (0, Some ErrSyntax)
      else if n \<ge> maxUint64 div 10 + 1 then (maxUint64, Some ErrRange)
      else if n * 10 + digitVal c > maxUint64 then (maxUint64, Some ErrRange)
      else ParseUintLoop cs (n * 10 + digitVal c))"

definition ParseUint :: "string \<Rightarrow> int \<times> num_err option" where
  "ParseUint s = (if s = [] then (0, Some ErrSyntax) else ParseUintLoop s 0)"

text \<open>
  \<open>strconv.ParseInt(s, 10, 0)\<close>: an optional sign, then \<open>ParseUint\<close>; a value outside the
  64-bit range is clamped and reported as a range error.
\<close>

definition ParseInt :: "string \<Rightarrow> int \<times> num_err option" where
  "ParseInt s =
     (if s = [] then (0, Some ErrSyntax)
      else
        let neg = (hd s = CHR ''-'');
            s' = (if hd s = CHR ''+'' \<or> hd s = CHR ''-'' then tl s else s);
            (un, err) = ParseUint s'
        in if err \<noteq> None \<and> err \<noteq> Some ErrRange then (0, err)
           else if \<not> neg \<and> un \<ge> 2 ^ 63 then (2 ^ 63 - 1, Some ErrRange)
           else if neg \<and> un > 2 ^ 63 then (- (2 ^ 63), Some ErrRange)
           else (if neg then - un else un, None))"

text \<open>
  \<open>strconv.Atoi(s)\<close> is \<open>ParseInt(s, 10, 0)\<close> with the error renamed; its fast path for
  short strings computes the same value and the same kind of error.
\<close>

definition Atoi :: "string \<Rightarrow> int \<times> go_error option" where
  "Atoi s = (case ParseInt s of
               (n, None) \<Rightarrow> (n, None)
             | (n, Some e) \<Rightarrow> (n, Some (NumError ''Atoi'' s e)))"

text \<open>\<open>strconv.Itoa(i)\<close>: the decimal digits, with a minus sign for a negative number.\<close>

function ItoaDigits :: "int \<Rightarrow> string" where
  "ItoaDigits n =
     (if n < 10 then [char_of (48 + n)]
      else ItoaDigits (n div 10) @ [char_of (48 + n mod 10)])"
  by pat_completeness auto
termination
  by (relation "measure nat") auto

definition Itoa :: "int \<Rightarrow> string" where
  "Itoa i = (if i < 0 then CHR ''-'' # ItoaDigits (- i) else ItoaDigits i)"

text \<open>Two's-complement wrap-around of a 64-bit \<open>int\<close>.\<close>

definition wrap64 :: "int \<Rightarrow> int" where
  "wrap64 i = (i + 2 ^ 63) mod 2 ^ 64 - 2 ^ 63"

subsection \<open>Floating point (float64) as an interface\<close>

text \<open>
  The rounding of float64 arithmetic is not modelled. The operations of float64 that the
  plugin uses are the fields of a record, and every theorem holds for all of them:
  conversion from \<open>int\<close>, \<open>+\<close>, \<open>*\<close>, \<open>/\<close>, \<open><\<close>, \<open>\<le>\<close>, \<open>strconv.ParseFloat(s, 64)\<close>
  (a value and an error, as in Go), \<open>strconv.FormatFloat(x, 'f', -1, 64)\<close> and the
  conversion to \<open>int64\<close> that \<open>time.Duration(x)\<close> performs. A float constant of the source
  such as \<open>-1.0\<close> or \<open>60.0\<close> is the conversion of that integer.
\<close>

record 'f float_ops =
  fl_of_int :: "int \<Rightarrow> 'f"
  fl_add :: "'f \<Rightarrow> 'f \<Rightarrow> 'f"
  fl_mul :: "'f \<Rightarrow> 'f \<Rightarrow> 'f"
  fl_div :: "'f \<Rightarrow> 'f \<Rightarrow> 'f"
  fl_less :: "'f \<Rightarrow> 'f \<Rightarrow> bool"
  fl_le :: "'f \<Rightarrow> 'f \<Rightarrow> bool"
  ParseFloat :: "string \<Rightarrow> 'f \<times> go_error option"
  FormatFloat :: "'f \<Rightarrow> string"
  fl_to_int64 :: "'f \<Rightarrow> int"

subsection \<open>The output parser\<close>

datatype panic = IndexOutOfRange

text \<open>Indexing a slice: \<open>xs[i]\<close> panics when \<open>i\<close> is not below the length.\<close>

definition elemAt :: "'a list \<Rightarrow> nat \<Rightarrow> panic + 'a" where
  "elemAt xs i = (if i < length xs then Inr (xs ! i) else Inl IndexOutOfRange)"

text \<open>
  \<open>regexp.MustCompile(`ttl=(\d+)`).FindStringSubmatch(line)\<close>: the leftmost place where
  \<open>ttl=\<close> is followed by a decimal digit; the result is the whole match and the longest
  run of digits after \<open>ttl=\<close>, or the nil slice when there is no such place.
\<close>

fun ttlLine_FindStringSubmatch :: "string \<Rightarrow> string list" where
  "ttlLine_FindStringSubmatch [] = []"
| "ttlLine_FindStringSubmatch (c # cs) =
     (let ds = takeWhile isDigit (drop 4 (c # cs))
      in if HasPrefix (c # cs) ''ttl='' \<and> ds \<noteq> [] then [''ttl='' @ ds, ds]
         else ttlLine_FindStringSubmatch cs)"

definition getTTL :: "string \<Rightarrow> panic + (int \<times> go_error option)" where
  "getTTL line =
     (let ttlMatch = ttlLine_FindStringSubmatch line
      in case elemAt ttlMatch 1 of
           Inl p \<Rightarrow> Inl p
         | Inr g \<Rightarrow> Inr (Atoi g))"

definition getPacketStats ::
  "string \<Rightarrow> int \<Rightarrow> int \<Rightarrow> panic + (int \<times> int \<times> go_error option)" where
  "getPacketStats line trans0 recv0 =
     (let stats = Split line '', '' in
      (case elemAt stats 0 of Inl p \<Rightarrow> Inl p | Inr s0 \<Rightarrow>
      (case elemAt (Split s0 '' '') 0 of Inl p \<Rightarrow> Inl p | Inr t0 \<Rightarrow>
      (case Atoi t0 of (trans1, err) \<Rightarrow>
      (if err \<noteq> None then Inr (trans1, recv0, err)
       else
        (case elemAt stats 1 of Inl p \<Rightarrow> Inl p | Inr s1 \<Rightarrow>
        (case elemAt (Split s1 '' '') 0 of Inl p \<Rightarrow> Inl p | Inr t1 \<Rightarrow>
        (case Atoi t1 of (recv1, err1) \<Rightarrow> Inr (trans1, recv1, err1)))))))))"

definition checkRoundTripTimeStats ::
  "'f float_ops \<Rightarrow> string \<Rightarrow> 'f \<Rightarrow> 'f \<Rightarrow> 'f \<Rightarrow> 'f
     \<Rightarrow> panic + ('f \<times> 'f \<times> 'f \<times> 'f \<times> go_error option)" where
  "checkRoundTripTimeStats ops line min0 avg0 max0 stddev0 =
     (case elemAt (Split line '' '') 3 of Inl p \<Rightarrow> Inl p | Inr stats \<Rightarrow>
      (let data = Split stats ''/'' in
      (case elemAt data 0 of Inl p \<Rightarrow> Inl p | Inr d0 \<Rightarrow>
      (case ParseFloat ops d0 of (min1, err) \<Rightarrow>
      (if err \<noteq> None then Inr (min1, avg0, max0, stddev0, err)
       else
        (case elemAt data 1 of Inl p \<Rightarrow> Inl p | Inr d1 \<Rightarrow>
        (case ParseFloat ops d1 of (avg1, err) \<Rightarrow>
        (if err \<noteq> None then Inr (min1, avg1, max0, stddev0, err)
         else
          (case elemAt data 2 of Inl p \<Rightarrow> Inl p | Inr d2 \<Rightarrow>
          (case ParseFloat ops d2 of (max1, err) \<Rightarrow>
          (if err \<noteq> None then Inr (min1, avg1, max1, stddev0, err)
           else if length data = 4 then
            (case elemAt data 3 of Inl p \<Rightarrow> Inl p | Inr d3 \<Rightarrow>
            (case ParseFloat ops d3 of (stddev1, err) \<Rightarrow>
               Inr (min1, avg1, max1, stddev1, err)))
           else Inr (min1, avg1, max1, stddev0, err))))))))))))"

text \<open>
  The values \<open>processPingOutput\<close> returns: transmitted, received, ttl, min, avg, max,
  stddev and the error (\<open>None\<close> is Go's nil).
\<close>

type_synonym 'f ping_stats =
  "int \<times> int \<times> int \<times> 'f \<times> 'f \<times> 'f \<times> 'f \<times> go_error option"

text \<open>The loop over the lines, with the local variables of \<open>processPingOutput\<close> as state.\<close>

fun processLines :: "'f float_ops \<Rightarrow> string list \<Rightarrow> 'f ping_stats \<Rightarrow> panic + 'f ping_stats" where
  "processLines ops [] st = Inr st"
| "processLines ops (line # lines) (trans0, recv0, ttl, min0, avg0, max0, stddev0, err) =
     (if ttl = - 1 \<and> Contains line ''ttl='' then
        (case getTTL line of
           Inl p \<Rightarrow> Inl p
         | Inr (ttl1, err1) \<Rightarrow>
             processLines ops lines (trans0, recv0, ttl1, min0, avg0, max0, stddev0, err1))
      else if Contains line ''transmitted'' \<and> Contains line ''received'' then
        (case getPacketStats line trans0 recv0 of
           Inl p \<Rightarrow> Inl p
         | Inr (trans1, recv1, err1) \<Rightarrow>
             if err1 \<noteq> None then Inr (trans1, recv1, ttl, min0, avg0, max0, stddev0, err1)
             else processLines ops lines (trans1, recv1, ttl, min0, avg0, max0, stddev0, err1))
      else if Contains line ''min/avg/max'' then
        (case checkRoundTripTimeStats ops line min0 avg0 max0 stddev0 of
           Inl p \<Rightarrow> Inl p
         | Inr (min1, avg1, max1, stddev1, err1) \<Rightarrow>
             if err1 \<noteq> None then Inr (trans0, recv0, ttl, min1, avg1, max1, stddev1, err1)
             else processLines ops lines (trans0, recv0, ttl, min1, avg1, max1, stddev1, err1))
      else processLines ops lines (trans0, recv0, ttl, min0, avg0, max0, stddev0, err))"

definition newline :: string where
  "newline = [char_of (10 :: nat)]"

definition processPingOutput :: "'f float_ops \<Rightarrow> string \<Rightarrow> panic + 'f ping_stats" where
  "processPingOutput ops out =
     processLines ops (Split out newline)
       (0, 0, - 1, fl_of_int ops (- 1), fl_of_int ops (- 1), fl_of_int ops (- 1),
        fl_of_int ops (- 1), Some (ErrorsNew ''Fatal error processing ping output''))"

subsection \<open>Configuration and the argument builder\<close>

text \<open>
  The struct \<open>Ping\<close>. The wait group \<open>wg\<close> only joins the goroutines of \<open>Gather\<close> and is
  left out.
\<close>

record 'f Ping =
  PingInterval :: 'f
  Count :: int
  Timeout :: 'f
  Deadline :: int
  Interface :: string
  Urls :: "string list"
  Binary :: string
  Arguments :: "string list"
  pingHost :: "string \<Rightarrow> 'f \<Rightarrow> string list \<Rightarrow> string \<times> go_error option"

definition args :: "'f float_ops \<Rightarrow> 'f Ping \<Rightarrow> string \<Rightarrow> string \<Rightarrow> string list" where
  "args ops p url system =
     (if length (Arguments p) > 0 then Arguments p @ [url]
      else
        let args0 = [''-c'', Itoa (Count p), ''-n'', ''-s'', ''16''];
            args1 =
              (if fl_less ops (fl_of_int ops 0) (PingInterval p)
               then args0 @ [''-i'', FormatFloat ops (PingInterval p)]
               else args0);
            args2 =
              (if fl_less ops (fl_of_int ops 0) (Timeout p) then
                 (if system = ''darwin'' then
                    args1 @ [''-W'', FormatFloat ops (fl_mul ops (Timeout p) (fl_of_int ops 1000))]
                  else if system = ''freebsd'' \<or> system = ''netbsd'' \<or> system = ''openbsd'' then
                    args1 @ [''-W'', FormatFloat ops (fl_mul ops (Timeout p) (fl_of_int ops 1000))]
                  else if system = ''linux'' then
                    args1 @ [''-W'', FormatFloat ops (Timeout p)]
                  else
                    args1 @ [''-W'', FormatFloat ops (Timeout p)])
               else args1);
            args3 =
              (if Deadline p > 0 then
                 (if system = ''darwin'' \<or> system = ''freebsd'' \<or> system = ''netbsd''
                     \<or> system = ''openbsd'' then
                    args2 @ [''-t'', Itoa (Deadline p)]
                  else if system = ''linux'' then
                    args2 @ [''-w'', Itoa (Deadline p)]
                  else
                    args2 @ [''-w'', Itoa (Deadline p)])
               else args2);
            args4 =
              (if Interface p \<noteq> [] then
                 (if system = ''darwin'' then
                    args3 @ [''-I'', Interface p]
                  else if system = ''freebsd'' \<or> system = ''netbsd'' \<or> system = ''openbsd'' then
                    args3 @ [''-s'', Interface p]
                  else if system = ''linux'' then
                    args3 @ [''-I'', Interface p]
                  else
                    args3 @ [''-i'', Interface p])
               else args3)
        in args4 @ [url])"

subsection \<open>The probe of one target\<close>

text \<open>
  What the probe does to its surroundings is kept in a trace: the errors given to
  \<open>acc.AddError\<close>, the measurements given to \<open>acc.AddFields\<close> (name, fields, tags), the
  calls of \<open>p.pingHost\<close> (binary, timeout, arguments) and the texts handed to
  \<open>processPingOutput\<close>. A field value is an \<open>int\<close> or a float64.
\<close>

datatype 'f fval = IntVal int | FloatVal 'f

record 'f trace =
  errors :: "go_error list"
  metrics :: "(string \<times> (string \<rightharpoonup> 'f fval) \<times> (string \<rightharpoonup> string)) list"
  pinged :: "(string \<times> 'f \<times> string list) list"
  parsed :: "string list"

definition AddError :: "go_error \<Rightarrow> 'f trace \<Rightarrow> 'f trace" where
  "AddError e tr = tr\<lparr>errors := errors tr @ [e]\<rparr>"

definition AddFields ::
  "string \<Rightarrow> (string \<rightharpoonup> 'f fval) \<Rightarrow> (string \<rightharpoonup> string) \<Rightarrow> 'f trace \<Rightarrow> 'f trace" where
  "AddFields name fields0 tags tr = tr\<lparr>metrics := metrics tr @ [(name, fields0, tags)]\<rparr>"

text \<open>
  What the probe takes from outside the plugin: \<open>net.LookupHost\<close> (only its error is
  used), \<open>runtime.GOOS\<close> and \<open>strings.TrimSpace\<close> (which knows Unicode white space).
\<close>

record sys =
  LookupHost :: "string \<Rightarrow> go_error option"
  GOOS :: string
  TrimSpace :: "string \<Rightarrow> string"

definition totalTimeout :: "'f float_ops \<Rightarrow> 'f Ping \<Rightarrow> 'f" where
  "totalTimeout ops p =
     (if length (Arguments p) = 0
      then fl_add ops (fl_mul ops (fl_of_int ops (Count p)) (Timeout p))
                      (fl_mul ops (fl_of_int ops (wrap64 (Count p - 1))) (PingInterval p))
      else fl_of_int ops 60)"

text \<open>Lines 164 to 182: what a successful probe adds to the map \<open>fields\<close>.\<close>

definition statFields ::
  "'f float_ops \<Rightarrow> (string \<rightharpoonup> 'f fval) \<Rightarrow> 'f ping_stats \<Rightarrow> (string \<rightharpoonup> 'f fval)" where
  "statFields ops fields0 st =
     (case st of (trans0, rec, ttl, min0, avg0, max0, stddev0, err) \<Rightarrow>
      let loss = fl_mul ops (fl_div ops (fl_of_int ops (wrap64 (trans0 - rec)))
                                        (fl_of_int ops trans0))
                            (fl_of_int ops 100);
          f1 = fields0(''packets_transmitted'' \<mapsto> IntVal trans0);
          f2 = f1(''packets_received'' \<mapsto> IntVal rec);
          f3 = f2(''percent_packet_loss'' \<mapsto> FloatVal loss);
          f4 = (if ttl \<ge> 0 then f3(''ttl'' \<mapsto> IntVal ttl) else f3);
          f5 = (if fl_le ops (fl_of_int ops 0) min0
                then f4(''minimum_response_ms'' \<mapsto> FloatVal min0) else f4);
          f6 = (if fl_le ops (fl_of_int ops 0) avg0
                then f5(''average_response_ms'' \<mapsto> FloatVal avg0) else f5);
          f7 = (if fl_le ops (fl_of_int ops 0) max0
                then f6(''maximum_response_ms'' \<mapsto> FloatVal max0) else f6)
      in (if fl_le ops (fl_of_int ops 0) stddev0
          then f7(''standard_deviation_ms'' \<mapsto> FloatVal stddev0) else f7))"

text \<open>
  Lines 155 to 183, the part of \<open>pingToURL\<close> after the call of \<open>p.pingHost\<close>: parse the
  output and report. The result is the trace and, when the parser panicked, the panic (the
  goroutine dies before anything is reported).
\<close>

definition parseAndReport ::
  "'f float_ops \<Rightarrow> string \<Rightarrow> (string \<rightharpoonup> string) \<Rightarrow> (string \<rightharpoonup> 'f fval) \<Rightarrow> string
     \<Rightarrow> 'f trace \<Rightarrow> panic option \<times> 'f trace" where
  "parseAndReport ops u tags fields0 out tr =
     (let tr1 = tr\<lparr>parsed := parsed tr @ [out]\<rparr> in
      (case processPingOutput ops out of
         Inl pn \<Rightarrow> (Some pn, tr1)
       | Inr (trans0, rec, ttl, min0, avg0, max0, stddev0, err) \<Rightarrow>
           (case err of
              Some perr \<Rightarrow>
                (None, AddFields ''ping'' (fields0(''result_code'' \<mapsto> IntVal 2)) tags
                         (AddError (Errorf ''%s: %s'' [ArgE perr, ArgS u]) tr1))
            | None \<Rightarrow>
                (None, AddFields ''ping''
                         (statFields ops fields0
                            (trans0, rec, ttl, min0, avg0, max0, stddev0, err)) tags tr1))))"

definition pingToURL ::
  "'f float_ops \<Rightarrow> sys \<Rightarrow> 'f Ping \<Rightarrow> string \<Rightarrow> 'f trace \<Rightarrow> panic option \<times> 'f trace" where
  "pingToURL ops sy p u tr =
     (let tags = [''url'' \<mapsto> u];
          fields0 = [''result_code'' \<mapsto> IntVal 0]
      in
      (case LookupHost sy u of
         Some err \<Rightarrow>
           (None, AddFields ''ping'' (fields0(''result_code'' \<mapsto> IntVal 1)) tags (AddError err tr))
       | None \<Rightarrow>
           (let args1 = args ops p u (GOOS sy);
                timeout1 = totalTimeout ops p;
                tr1 = tr\<lparr>pinged := pinged tr @ [(Binary p, timeout1, args1)]\<rparr>
            in
            (case pingHost p (Binary p) timeout1 args1 of
               (out, None) \<Rightarrow> parseAndReport ops u tags fields0 out tr1
             | (out, Some err) \<Rightarrow>
                 (let status = (case err of ExitError (Some st) msg \<Rightarrow> st | _ \<Rightarrow> - 1);
                      fields1 = (case err of
                                   ExitError (Some st) msg \<Rightarrow> fields0(''result_code'' \<mapsto> IntVal st)
                                 | _ \<Rightarrow> fields0)
                  in
                  (if status \<noteq> 1 then
                     (let out1 = TrimSpace sy out;
                          tr2 = (if length out1 > 0
                                 then AddError (Errorf ''host %s: %s, %s''
                                                  [ArgS u, ArgS out1, ArgE err]) tr1
                                 else AddError (Errorf ''host %s: %s'' [ArgS u, ArgE err]) tr1)
                      in (None, AddFields ''ping'' (fields1(''result_code'' \<mapsto> IntVal 2)) tags tr2))
                   else parseAndReport ops u tags fields1 out tr1))))))"

subsection \<open>The default runner\<close>


subsection \<open>An exact decimal interpretation of the float64 interface\<close>

text \<open>
  To run the model on concrete inputs the interface is interpreted over the rationals:
  arithmetic is exact, \<open>None\<close> stands for a result that is no finite number (a division by
  zero) and compares false with everything, \<open>ParseDecimal\<close> reads the plain decimal
  literals that ping prints (an optional sign, digits, an optional fraction) and
  \<open>FormatDecimal\<close> prints at most 17 fraction digits. The general theorems below hold for
  every interpretation of the interface; this one supplies the concrete runs.
\<close>

type_synonym dec = "rat option"

definition dec_lift :: "(rat \<Rightarrow> rat \<Rightarrow> rat) \<Rightarrow> dec \<Rightarrow> dec \<Rightarrow> dec" where
  "dec_lift f a b = (case (a, b) of (Some x, Some y) \<Rightarrow> Some (f x y) | _ \<Rightarrow> None)"

definition dec_div :: "dec \<Rightarrow> dec \<Rightarrow> dec" where
  "dec_div a b =
     (case (a, b) of (Some x, Some y) \<Rightarrow> (if y = 0 then None else Some (x / y)) | _ \<Rightarrow> None)"

definition dec_cmp :: "(rat \<Rightarrow> rat \<Rightarrow> bool) \<Rightarrow> dec \<Rightarrow> dec \<Rightarrow> bool" where
  "dec_cmp r a b = (case (a, b) of (Some x, Some y) \<Rightarrow> r x y | _ \<Rightarrow> False)"

definition digitsVal :: "string \<Rightarrow> int" where
  "digitsVal ds = foldl (\<lambda>n c. n * 10 + digitVal c) 0 ds"

definition ParseDecimal :: "string \<Rightarrow> dec \<times> go_error option" where
  "ParseDecimal s =
     (let neg = (s \<noteq> [] \<and> hd s = CHR ''-'');
          body = (if s \<noteq> [] \<and> (hd s = CHR ''+'' \<or> hd s = CHR ''-'') then tl s else s);
          ip = takeWhile isDigit body;
          rest = dropWhile isDigit body;
          frac = (if rest \<noteq> [] \<and> hd rest = CHR ''.'' then tl rest else []);
          valid = ((rest = [] \<or> hd rest = CHR ''.'') \<and> list_all isDigit frac
                   \<and> ip @ frac \<noteq> []);
          v = of_int (digitsVal (ip @ frac)) / of_int (10 ^ length frac)
      in if valid then (Some (if neg then - v else v), None)
         else (Some 0, Some (NumError ''ParseFloat'' s ErrSyntax)))"

fun fracDigits :: "nat \<Rightarrow> rat \<Rightarrow> string" where
  "fracDigits 0 r = []"
| "fracDigits (Suc k) r =
     (if r = 0 then []
      else char_of (48 + \<lfloor>r * 10\<rfloor>) # fracDigits k (r * 10 - of_int \<lfloor>r * 10\<rfloor>))"

definition FormatDecimal :: "dec \<Rightarrow> string" where
  "FormatDecimal a =
     (case a of
        None \<Rightarrow> ''NaN''
      | Some x \<Rightarrow>
          (let y = \<bar>x\<bar>; fr = y - of_int \<lfloor>y\<rfloor>
           in (if x < 0 then ''-'' else []) @ ItoaDigits \<lfloor>y\<rfloor>
              @ (if fr = 0 then [] else CHR ''.'' # fracDigits 17 fr)))"

definition dec_to_int64 :: "dec \<Rightarrow> int" where
  "dec_to_int64 a =
     (case a of
        None \<Rightarrow> - (2 ^ 63)
      | Some x \<Rightarrow>
          (let t = (if x < 0 then \<lceil>x\<rceil> else \<lfloor>x\<rfloor>)
           in if - (2 ^ 63) \<le> t \<and> t < 2 ^ 63 then t else - (2 ^ 63)))"

definition dec_ops :: "dec float_ops" where
  "dec_ops =
     \<lparr> fl_of_int = (\<lambda>i. Some (of_int i)),
       fl_add = dec_lift (+),
       fl_mul = dec_lift (*),
       fl_div = dec_div,
       fl_less = dec_cmp (<),
       fl_le = dec_cmp (\<le>),
       ParseFloat = ParseDecimal,
       FormatFloat = FormatDecimal,
       fl_to_int64 = dec_to_int64 \<rparr>"

subsection \<open>Sample inputs\<close>

text \<open>The output of the comment above \<open>processPingOutput\<close>, with one reply line.\<close>

definition sampleReply :: string where
  "sampleReply = ''64 bytes from 1.2.3.4: icmp_seq=0 ttl=54 time=52.172 ms''"

definition sampleSummary :: string where
  "sampleSummary = ''2 packets transmitted, 2 packets received, 0.0% packet loss''"

definition sampleRTT :: string where
  "sampleRTT = ''round-trip min/avg/max/stddev = 34.843/43.508/52.172/8.664 ms''"

definition sampleOutput :: string where
  "sampleOutput = sampleReply @ newline @ sampleSummary @ newline @ sampleRTT"

definition zeroSummary :: string where
  "zeroSummary = ''0 packets transmitted, 0 packets received, 0.0% packet loss''"

text \<open>
  Stand-ins for the runner (the field \<open>pingHost\<close> is there to be replaced) that exit with a
  given status, and the configuration that \<open>init\<close> sets up.
\<close>

definition pingerExit :: "int \<Rightarrow> string \<Rightarrow> string \<Rightarrow> dec \<Rightarrow> string list \<Rightarrow> string \<times> go_error option" where
  "pingerExit st out binary timeout1 args1 = (out, Some (ExitError (Some st) ''exit status''))"

definition samplePing :: "dec Ping" where
  "samplePing =
     \<lparr> PingInterval = Some 1, Count = 1, Timeout = Some 1, Deadline = 10, Interface = [],
       Urls = [''example.org''], Binary = ''ping'', Arguments = [],
       pingHost = pingerExit 1 sampleOutput \<rparr>"

definition isSpace :: "char \<Rightarrow> bool" where
  "isSpace c = (c \<in> set [CHR '' '', char_of (9 :: nat), char_of (10 :: nat), char_of (11 :: nat),
                            char_of (12 :: nat), char_of (13 :: nat)])"

definition TrimASCII :: "string \<Rightarrow> string" where
  "TrimASCII s = rev (dropWhile isSpace (rev (dropWhile isSpace s)))"

definition resolveAll :: "string \<Rightarrow> go_error option" where
  "resolveAll host = None"

definition resolveNone :: "string \<Rightarrow> go_error option" where
  "resolveNone host = Some (LookupError ''no such host'')"

definition sampleSys :: sys where
  "sampleSys = \<lparr> LookupHost = resolveAll, GOOS = ''linux'', TrimSpace = TrimASCII \<rparr>"

definition emptyTrace :: "dec trace" where
  "emptyTrace = \<lparr> errors = [], metrics = [], pinged = [], parsed = [] \<rparr>"

definition sampleSysNoHost :: sys where
  "sampleSysNoHost = \<lparr> LookupHost = resolveNone, GOOS = ''linux'', TrimSpace = TrimASCII \<rparr>"

definition failingPing :: "dec Ping" where
  "failingPing = samplePing\<lparr>pingHost := pingerExit 3 ''connect: Network is unreachable''\<rparr>"





text \<open>The value of one field in each reported measurement.\<close>

definition fieldOf :: "string \<Rightarrow> 'f trace \<Rightarrow> 'f fval option list" where
  "fieldOf k tr = map (\<lambda>(name, fields0, tags). fields0 k) (metrics tr)"

subsection \<open>The argument list as the specification words it\<close>

text \<open>
  The specification describes the argument list flag by flag, by family of operating
  systems. These definitions follow its words; \<open>args\<close> above follows the code.
\<close>

definition bsdFamily :: "string \<Rightarrow> bool" where
  "bsdFamily osFamily = (osFamily \<in> {''freebsd'', ''netbsd'', ''openbsd''})"

definition baseFlags :: "'f Ping \<Rightarrow> string list" where
  "baseFlags p = [''-c'', Itoa (Count p), ''-n'', ''-s'', ''16'']"

definition intervalFlag :: "'f float_ops \<Rightarrow> 'f Ping \<Rightarrow> string list" where
  "intervalFlag ops p =
     (if fl_less ops (fl_of_int ops 0) (PingInterval p)
      then [''-i'', FormatFloat ops (PingInterval p)] else [])"

definition timeoutFlag :: "'f float_ops \<Rightarrow> 'f Ping \<Rightarrow> string \<Rightarrow> string list" where
  "timeoutFlag ops p osFamily =
     (if fl_less ops (fl_of_int ops 0) (Timeout p)
      then [''-W'',
            FormatFloat ops
              (if osFamily = ''darwin'' \<or> bsdFamily osFamily
               then fl_mul ops (Timeout p) (fl_of_int ops 1000)
               else Timeout p)]
      else [])"

definition deadlineFlag :: "'f Ping \<Rightarrow> string \<Rightarrow> string list" where
  "deadlineFlag p osFamily =
     (if Deadline p > 0
      then [if osFamily = ''darwin'' \<or> bsdFamily osFamily then ''-t'' else ''-w'',
            Itoa (Deadline p)]
      else [])"

definition interfaceFlag :: "'f Ping \<Rightarrow> string \<Rightarrow> string list" where
  "interfaceFlag p osFamily =
     (if Interface p \<noteq> []
      then [if osFamily = ''linux'' \<or> osFamily = ''darwin'' then ''-I''
            else if bsdFamily osFamily then ''-s'' else ''-i'',
            Interface p]
      else [])"

definition specArgs :: "'f float_ops \<Rightarrow> 'f Ping \<Rightarrow> string \<Rightarrow> string \<Rightarrow> string list" where
  "specArgs ops p target osFamily =
     (if Arguments p \<noteq> [] then Arguments p @ [target]
      else baseFlags p @ intervalFlag ops p @ timeoutFlag ops p osFamily
           @ deadlineFlag p osFamily @ interfaceFlag p osFamily @ [target])"

subsection \<open>The summary line as the specification words it\<close>

text \<open>
  A line containing both \<open>transmitted\<close> and \<open>received\<close> is the packet-statistics summary;
  split on \<open>", "\<close>, the leading integer of token 0 is the transmitted count.
\<close>

definition summaryLine :: "string \<Rightarrow> bool" where
  "summaryLine line = (Contains line ''transmitted'' \<and> Contains line ''received'')"

definition firstPiece :: "string \<Rightarrow> string \<Rightarrow> string" where
  "firstPiece s sep = (case Split s sep of [] \<Rightarrow> [] | x # xs \<Rightarrow> x)"

definition transmittedCount :: "string \<Rightarrow> int \<times> go_error option" where
  "transmittedCount line = Atoi (firstPiece (firstPiece line '', '') '' '')"

subsection \<open>Malformed lines\<close>

text \<open>A line that contains \<open>ttl=\<close>, nowhere followed by a decimal digit.\<close>

definition ttlWithoutDigit :: "string \<Rightarrow> bool" where
  "ttlWithoutDigit line =
     (Contains line ''ttl=''
      \<and> list_all (\<lambda>d. \<not> Contains line (''ttl='' @ [d])) ''0123456789'')"

definition lineNoSeparator :: string where
  "lineNoSeparator = ''1 transmitted received''"

definition lineTTLNoDigit :: string where
  "lineTTLNoDigit = ''ttl=x''"

definition lineShortRTT :: string where
  "lineShortRTT = ''min/avg/max''"

text \<open>
  A line that the loop of \<open>processPingOutput\<close> hands to \<open>checkRoundTripTimeStats\<close>,
  whatever ttl it has seen before.
\<close>

definition roundTripLine :: "string \<Rightarrow> bool" where
  "roundTripLine line =
     (\<not> Contains line ''ttl='' \<and> \<not> summaryLine line \<and> Contains line ''min/avg/max'')"

text \<open>Round-trip lines with three numbers, and with an entry that is no number.\<close>

definition sampleRTT3 :: string where
  "sampleRTT3 = ''round-trip min/avg/max = 34.843/43.508/52.172 ms''"

definition sampleRTTBad :: string where
  "sampleRTTBad = ''round-trip min/avg/max/stddev = 34.843/oops/52.172/8.664 ms''"

subsection \<open>Tokens as the specification words them\<close>

text \<open>
  The specification speaks of the whitespace-delimited tokens of a line: the maximal runs
  of bytes that are no white space (what \<open>strings.Fields\<close> returns for ASCII text). The
  code splits at each single space instead.
\<close>

fun FieldsFrom :: "string \<Rightarrow> string \<Rightarrow> string list" where
  "FieldsFrom cur [] = (if cur = [] then [] else [cur])"
| "FieldsFrom cur (c # cs) =
     (if isSpace c then (if cur = [] then FieldsFrom [] cs else cur # FieldsFrom [] cs)
      else FieldsFrom (cur @ [c]) cs)"

definition whitespaceTokens :: "string \<Rightarrow> string list" where
  "whitespaceTokens s = FieldsFrom [] s"

text \<open>The round-trip line of the sample with two spaces before the list of numbers.\<close>

definition doubleSpaceRTT :: string where
  "doubleSpaceRTT = ''round-trip min/avg/max/stddev =  34.843/43.508/52.172/8.664 ms''"

section \<open>Properties\<close>

subsection \<open>Auxiliary facts\<close>


lemma rtt_four:
  assumes "elemAt (Split line '' '') 3 = Inr stats" and "Split stats ''/'' = [a, b, c, d]"
    and "ParseFloat ops a = (x, None)" and "ParseFloat ops b = (y, None)"
    and "ParseFloat ops c = (z, None)" and "ParseFloat ops d = (w, e)"
  shows "checkRoundTripTimeStats ops line m0 a0 x0 s0 = Inr (x, y, z, w, e)"
  using assms by (simp add: checkRoundTripTimeStats_def elemAt_def)

lemma rtt_three:
  assumes "elemAt (Split line '' '') 3 = Inr stats" and "Split stats ''/'' = [a, b, c]"
    and "ParseFloat ops a = (x, None)" and "ParseFloat ops b = (y, None)"
    and "ParseFloat ops c = (z, e)"
  shows "checkRoundTripTimeStats ops line m0 a0 x0 s0 = Inr (x, y, z, s0, e)"
  using assms by (simp add: checkRoundTripTimeStats_def elemAt_def Let_def)

lemma split_sampleOutput: "Split sampleOutput newline = [sampleReply, sampleSummary, sampleRTT]"
  by code_simp

lemma sampleReply_ttl: "Contains sampleReply ''ttl='' \<and> getTTL sampleReply = Inr (54, None)"
  by code_simp

lemma sampleSummary_stats:
  "Contains sampleSummary ''transmitted'' \<and> Contains sampleSummary ''received''
   \<and> getPacketStats sampleSummary 0 0 = Inr (2, 2, None)"
  by code_simp

lemma sampleRTT_shape:
  "\<not> Contains sampleRTT ''transmitted'' \<and> Contains sampleRTT ''min/avg/max''
   \<and> elemAt (Split sampleRTT '' '') 3 = Inr ''34.843/43.508/52.172/8.664''
   \<and> Split ''34.843/43.508/52.172/8.664'' ''/'' = [''34.843'', ''43.508'', ''52.172'', ''8.664'']"
  by code_simp

lemma dec_sample_floats:
  "ParseFloat dec_ops ''34.843'' = (Some (34843 / 1000), None)"
  "ParseFloat dec_ops ''43.508'' = (Some (43508 / 1000), None)"
  "ParseFloat dec_ops ''52.172'' = (Some (52172 / 1000), None)"
  "ParseFloat dec_ops ''8.664'' = (Some (8664 / 1000), None)"
  by code_simp+

lemma dec_zero_loss:
  "fl_div dec_ops (fl_of_int dec_ops 0) (fl_of_int dec_ops 2) = fl_of_int dec_ops 0"
  "fl_mul dec_ops (fl_of_int dec_ops 0) (fl_of_int dec_ops 100) = fl_of_int dec_ops 0"
  by (simp_all add: dec_ops_def dec_div_def dec_lift_def)

lemma dec_sampleOutput:
  "processPingOutput dec_ops sampleOutput =
     Inr (2, 2, 54, Some (34843 / 1000), Some (43508 / 1000), Some (52172 / 1000),
          Some (8664 / 1000), None)"
  by code_simp

lemma sampleSys_resolves: "LookupHost sampleSys ''example.org'' = None"
  by (simp add: sampleSys_def resolveAll_def)

lemma samplePing_run:
  "pingHost samplePing (Binary samplePing) (totalTimeout dec_ops samplePing)
     (args dec_ops samplePing ''example.org'' (GOOS sampleSys))
   = (sampleOutput, Some (ExitError (Some 1) ''exit status''))"
  by (simp add: samplePing_def pingerExit_def)

lemma failingPing_run:
  "pingHost failingPing (Binary failingPing) (totalTimeout dec_ops failingPing)
     (args dec_ops failingPing ''example.org'' (GOOS sampleSys))
   = (''connect: Network is unreachable'', Some (ExitError (Some 3) ''exit status''))"
  by (simp add: failingPing_def samplePing_def pingerExit_def)

subsection \<open>The argument builder\<close>

text \<open>
  Claim C8. \<open>args(target, osFamily, config)\<close>: with a non-empty \<open>Arguments\<close> the result is
  that list with the target appended and nothing else; otherwise it is the count and
  payload-size base flags, then the interval flag (if the interval is positive), the timeout
  flag (if the timeout is positive; in milliseconds on darwin, freebsd, netbsd and openbsd,
  in seconds on linux and on every other family), the deadline flag (if the deadline is
  positive; \<open>-t\<close> on darwin and the BSD family, \<open>-w\<close> otherwise), the interface flag (if one
  is given; \<open>-I\<close> on linux and darwin, \<open>-s\<close> on the BSD family, \<open>-i\<close> otherwise), and the
  target, which is always the last element.
\<close>

theorem args_refines_spec:
  "args ops p url system = specArgs ops p url system \<and> last (args ops p url system) = url"
  by (simp add: args_def specArgs_def baseFlags_def intervalFlag_def timeoutFlag_def
        deadlineFlag_def interfaceFlag_def bsdFamily_def Let_def)

subsection \<open>The probe\<close>

text \<open>
  Claim C6. For a target whose name resolution fails, \<open>pingToURL\<close> gives the error to the
  error channel, reports exactly one measurement whose only field is \<open>result_code = 1\<close>,
  and changes nothing else of the trace: \<open>pingHost\<close> is not called.
\<close>

theorem lookup_failure_short_circuits:
  assumes "LookupHost sy u = Some e"
  shows "pingToURL ops sy p u tr =
           (None, tr\<lparr>errors := errors tr @ [e],
                     metrics := metrics tr @
                       [(''ping'', [''result_code'' \<mapsto> IntVal 1], [''url'' \<mapsto> u])]\<rparr>)"
  using assms by (simp add: pingToURL_def AddFields_def AddError_def)

theorem lookup_failure_short_circuits_witness:
  "LookupHost sampleSysNoHost ''example.org'' = Some (LookupError ''no such host'')
   \<and> pingToURL dec_ops sampleSysNoHost samplePing ''example.org'' emptyTrace =
       (None, emptyTrace\<lparr>errors := errors emptyTrace @ [LookupError ''no such host''],
                 metrics := metrics emptyTrace @
                   [(''ping'', [''result_code'' \<mapsto> IntVal 1], [''url'' \<mapsto> ''example.org''])]\<rparr>)"
proof -
  have h: "LookupHost sampleSysNoHost ''example.org'' = Some (LookupError ''no such host'')"
    by (simp add: sampleSysNoHost_def resolveNone_def)
  from h lookup_failure_short_circuits [OF h] show ?thesis by (rule conjI)
qed

subsection \<open>The sample output\<close>

text \<open>
  Claim C5. For the text made of the reply line with \<open>ttl=54\<close>, the summary line
  \<open>2 packets transmitted, 2 packets received, 0.0% packet loss\<close> and the round-trip line
  \<open>34.843/43.508/52.172/8.664\<close>, \<open>processPingOutput\<close> returns transmitted 2, received 2,
  ttl 54, the four numbers as \<open>ParseFloat\<close> reads them and a nil error, and the loss the
  caller computes is 0 (given that float64 has \<open>0 / 2 = 0\<close> and \<open>0 * 100 = 0\<close>).
\<close>

theorem sample_output_parses:
  assumes "ParseFloat ops ''34.843'' = (mn, None)" and "ParseFloat ops ''43.508'' = (av, None)"
    and "ParseFloat ops ''52.172'' = (mx, None)" and "ParseFloat ops ''8.664'' = (sd, None)"
    and "fl_div ops (fl_of_int ops 0) (fl_of_int ops 2) = fl_of_int ops 0"
    and "fl_mul ops (fl_of_int ops 0) (fl_of_int ops 100) = fl_of_int ops 0"
  shows "processPingOutput ops sampleOutput = Inr (2, 2, 54, mn, av, mx, sd, None)
         \<and> statFields ops fs (2, 2, 54, mn, av, mx, sd, None) ''percent_packet_loss''
             = Some (FloatVal (fl_of_int ops 0))"
proof -
  have rtt: "checkRoundTripTimeStats ops sampleRTT m0 a0 x0 s0 = Inr (mn, av, mx, sd, None)"
    for m0 a0 x0 s0
    using sampleRTT_shape assms(1-4) by (intro rtt_four) auto
  have "processPingOutput ops sampleOutput = Inr (2, 2, 54, mn, av, mx, sd, None)"
    unfolding processPingOutput_def split_sampleOutput
    using sampleReply_ttl sampleSummary_stats sampleRTT_shape by (simp add: rtt)
  moreover have "statFields ops fs (2, 2, 54, mn, av, mx, sd, None) ''percent_packet_loss''
             = Some (FloatVal (fl_of_int ops 0))"
    using assms(5,6) by (simp add: statFields_def Let_def wrap64_def)
  ultimately show ?thesis by simp
qed

theorem sample_output_parses_witness:
  "ParseFloat dec_ops ''34.843'' = (Some (34843 / 1000), None)
   \<and> ParseFloat dec_ops ''43.508'' = (Some (43508 / 1000), None)
   \<and> ParseFloat dec_ops ''52.172'' = (Some (52172 / 1000), None)
   \<and> ParseFloat dec_ops ''8.664'' = (Some (8664 / 1000), None)
   \<and> fl_div dec_ops (fl_of_int dec_ops 0) (fl_of_int dec_ops 2) = fl_of_int dec_ops 0
   \<and> fl_mul dec_ops (fl_of_int dec_ops 0) (fl_of_int dec_ops 100) = fl_of_int dec_ops 0
   \<and> processPingOutput dec_ops sampleOutput =
       Inr (2, 2, 54, Some (34843 / 1000), Some (43508 / 1000), Some (52172 / 1000),
            Some (8664 / 1000), None)
   \<and> statFields dec_ops [''result_code'' \<mapsto> IntVal 0]
        (2, 2, 54, Some (34843 / 1000), Some (43508 / 1000), Some (52172 / 1000),
         Some (8664 / 1000), None) ''percent_packet_loss''
       = Some (FloatVal (fl_of_int dec_ops 0))"
  using dec_sample_floats dec_zero_loss
    sample_output_parses [OF dec_sample_floats dec_zero_loss,
      where fs = "[''result_code'' \<mapsto> IntVal 0]"]
  by blast

subsection \<open>Exit statuses of the ping binary\<close>

text \<open>
  Claim C1, as the code has it. If the name resolves, the binary exits with status exactly
  1 and its output parses with a nil error, then \<open>pingToURL\<close> adds no error and reports one
  measurement with the full statistics: \<open>packets_transmitted\<close>, \<open>packets_received\<close>,
  \<open>percent_packet_loss\<close> and those of ttl, min, avg, max, stddev that are not negative.
  Its \<open>result_code\<close> is the exit status 1, which line 137 has stored, and not 0.
\<close>

theorem exit_status_one_is_reported:
  assumes "LookupHost sy u = None"
    and "pingHost p (Binary p) (totalTimeout ops p) (args ops p u (GOOS sy))
           = (out, Some (ExitError (Some 1) msg))"
    and "processPingOutput ops out = Inr (t, r, ttl, mn, av, mx, sd, None)"
  shows "pingToURL ops sy p u tr =
           (None, tr\<lparr>pinged := pinged tr @ [(Binary p, totalTimeout ops p, args ops p u (GOOS sy))],
                     parsed := parsed tr @ [out],
                     metrics := metrics tr @
                       [(''ping'', statFields ops [''result_code'' \<mapsto> IntVal 1]
                                     (t, r, ttl, mn, av, mx, sd, None), [''url'' \<mapsto> u])]\<rparr>)
     \<and> statFields ops [''result_code'' \<mapsto> IntVal 1] (t, r, ttl, mn, av, mx, sd, None) =
         (\<lambda>k. if k = ''result_code'' then Some (IntVal 1)
              else if k = ''packets_transmitted'' then Some (IntVal t)
              else if k = ''packets_received'' then Some (IntVal r)
              else if k = ''percent_packet_loss'' then
                Some (FloatVal (fl_mul ops (fl_div ops (fl_of_int ops (wrap64 (t - r)))
                                                       (fl_of_int ops t)) (fl_of_int ops 100)))
              else if k = ''ttl'' \<and> 0 \<le> ttl then Some (IntVal ttl)
              else if k = ''minimum_response_ms'' \<and> fl_le ops (fl_of_int ops 0) mn
                then Some (FloatVal mn)
              else if k = ''average_response_ms'' \<and> fl_le ops (fl_of_int ops 0) av
                then Some (FloatVal av)
              else if k = ''maximum_response_ms'' \<and> fl_le ops (fl_of_int ops 0) mx
                then Some (FloatVal mx)
              else if k = ''standard_deviation_ms'' \<and> fl_le ops (fl_of_int ops 0) sd
                then Some (FloatVal sd)
              else None)"
proof -
  have "pingToURL ops sy p u tr =
           (None, tr\<lparr>pinged := pinged tr @ [(Binary p, totalTimeout ops p, args ops p u (GOOS sy))],
                     parsed := parsed tr @ [out],
                     metrics := metrics tr @
                       [(''ping'', statFields ops [''result_code'' \<mapsto> IntVal 1]
                                     (t, r, ttl, mn, av, mx, sd, None), [''url'' \<mapsto> u])]\<rparr>)"
    using assms by (simp add: pingToURL_def parseAndReport_def AddFields_def Let_def)
  moreover have "statFields ops [''result_code'' \<mapsto> IntVal 1] (t, r, ttl, mn, av, mx, sd, None) =
         (\<lambda>k. if k = ''result_code'' then Some (IntVal 1)
              else if k = ''packets_transmitted'' then Some (IntVal t)
              else if k = ''packets_received'' then Some (IntVal r)
              else if k = ''percent_packet_loss'' then
                Some (FloatVal (fl_mul ops (fl_div ops (fl_of_int ops (wrap64 (t - r)))
                                                       (fl_of_int ops t)) (fl_of_int ops 100)))
              else if k = ''ttl'' \<and> 0 \<le> ttl then Some (IntVal ttl)
              else if k = ''minimum_response_ms'' \<and> fl_le ops (fl_of_int ops 0) mn
                then Some (FloatVal mn)
              else if k = ''average_response_ms'' \<and> fl_le ops (fl_of_int ops 0) av
                then Some (FloatVal av)
              else if k = ''maximum_response_ms'' \<and> fl_le ops (fl_of_int ops 0) mx
                then Some (FloatVal mx)
              else if k = ''standard_deviation_ms'' \<and> fl_le ops (fl_of_int ops 0) sd
                then Some (FloatVal sd)
              else None)"
    by (rule ext) (simp add: statFields_def Let_def)
  ultimately show ?thesis by simp
qed

theorem exit_status_one_is_reported_witness:
  "LookupHost sampleSys ''example.org'' = None
   \<and> pingHost samplePing (Binary samplePing) (totalTimeout dec_ops samplePing)
        (args dec_ops samplePing ''example.org'' (GOOS sampleSys))
       = (sampleOutput, Some (ExitError (Some 1) ''exit status''))
   \<and> processPingOutput dec_ops sampleOutput =
       Inr (2, 2, 54, Some (34843 / 1000), Some (43508 / 1000), Some (52172 / 1000),
            Some (8664 / 1000), None)
   \<and> pingToURL dec_ops sampleSys samplePing ''example.org'' emptyTrace =
       (None, emptyTrace\<lparr>pinged := pinged emptyTrace @
                  [(Binary samplePing, totalTimeout dec_ops samplePing,
                    args dec_ops samplePing ''example.org'' (GOOS sampleSys))],
                parsed := parsed emptyTrace @ [sampleOutput],
                metrics := metrics emptyTrace @
                  [(''ping'', statFields dec_ops [''result_code'' \<mapsto> IntVal 1]
                      (2, 2, 54, Some (34843 / 1000), Some (43508 / 1000), Some (52172 / 1000),
                       Some (8664 / 1000), None), [''url'' \<mapsto> ''example.org''])]\<rparr>)"
  using sampleSys_resolves samplePing_run dec_sampleOutput
    exit_status_one_is_reported [OF sampleSys_resolves samplePing_run dec_sampleOutput,
      where tr = emptyTrace]
  by blast

text \<open>
  The claim as the specification states it, \<open>result_code = 0\<close>, fails for the sample
  output with exit status 1: the reported \<open>result_code\<close> is 1.
\<close>

theorem exit_status_one_result_code_is_not_zero:
  "fieldOf ''result_code''
     (snd (pingToURL dec_ops sampleSys samplePing ''example.org'' emptyTrace))
   = [Some (IntVal 1)]
   \<and> fieldOf ''packets_transmitted''
     (snd (pingToURL dec_ops sampleSys samplePing ''example.org'' emptyTrace))
   = [Some (IntVal 2)]
   \<and> errors (snd (pingToURL dec_ops sampleSys samplePing ''example.org'' emptyTrace)) = []"
  by code_simp

text \<open>
  Claim C3, as the code has it. If the name resolves and the invocation fails with an error
  that is not an exit status of exactly 1, then \<open>pingToURL\<close> adds one error, reports
  one measurement whose only field is \<open>result_code = 2\<close>, whatever the exit status was,
  and does not hand the output to the parser.
\<close>

theorem fatal_exit_reports_two:
  assumes "LookupHost sy u = None"
    and "pingHost p (Binary p) (totalTimeout ops p) (args ops p u (GOOS sy)) = (out, Some err)"
    and "\<forall>msg. err \<noteq> ExitError (Some 1) msg"
  shows "fst (pingToURL ops sy p u tr) = None
       \<and> metrics (snd (pingToURL ops sy p u tr)) =
           metrics tr @ [(''ping'', [''result_code'' \<mapsto> IntVal 2], [''url'' \<mapsto> u])]
       \<and> parsed (snd (pingToURL ops sy p u tr)) = parsed tr
       \<and> length (errors (snd (pingToURL ops sy p u tr))) = Suc (length (errors tr))"
proof -
  have st: "(case err of ExitError (Some st) msg \<Rightarrow> st | _ \<Rightarrow> - 1) \<noteq> 1"
    using assms(3) by (auto split: go_error.splits option.splits)
  show ?thesis
    using assms(1,2) st
    by (simp add: pingToURL_def AddFields_def AddError_def Let_def
          split: go_error.splits option.splits)
qed

theorem fatal_exit_reports_two_witness:
  "LookupHost sampleSys ''example.org'' = None
   \<and> pingHost failingPing (Binary failingPing) (totalTimeout dec_ops failingPing)
        (args dec_ops failingPing ''example.org'' (GOOS sampleSys))
       = (''connect: Network is unreachable'', Some (ExitError (Some 3) ''exit status''))
   \<and> (\<forall>msg. ExitError (Some 3) ''exit status'' \<noteq> ExitError (Some 1) msg)
   \<and> fst (pingToURL dec_ops sampleSys failingPing ''example.org'' emptyTrace) = None
   \<and> metrics (snd (pingToURL dec_ops sampleSys failingPing ''example.org'' emptyTrace)) =
       metrics emptyTrace @
         [(''ping'', [''result_code'' \<mapsto> IntVal 2], [''url'' \<mapsto> ''example.org''])]
   \<and> parsed (snd (pingToURL dec_ops sampleSys failingPing ''example.org'' emptyTrace)) =
       parsed emptyTrace
   \<and> length (errors (snd (pingToURL dec_ops sampleSys failingPing ''example.org'' emptyTrace)))
       = Suc (length (errors emptyTrace))"
proof -
  have h: "\<forall>msg. ExitError (Some 3) ''exit status'' \<noteq> ExitError (Some 1) msg"
    by simp
  from sampleSys_resolves failingPing_run h
    fatal_exit_reports_two [OF sampleSys_resolves failingPing_run h, where tr = emptyTrace]
  show ?thesis by blast
qed

text \<open>
  The claim as the specification states it, \<open>result_code\<close> equal to the exit status, fails
  for exit status 3: the reported \<open>result_code\<close> is 2.
\<close>

theorem exit_status_three_result_code_is_two:
  "fieldOf ''result_code''
     (snd (pingToURL dec_ops sampleSys failingPing ''example.org'' emptyTrace))
   = [Some (IntVal 2)]"
  by code_simp






subsection \<open>The parser and the summary line\<close>

lemma elemAt_0: "elemAt xs 0 = Inr x \<Longrightarrow> (case xs of [] \<Rightarrow> [] | y # ys \<Rightarrow> y) = x"
  by (cases xs) (simp_all add: elemAt_def)

lemma getPacketStats_count:
  assumes "getPacketStats line t0 r0 = Inr (t1, r1, None)"
  shows "transmittedCount line = (t1, None)"
proof -
  obtain s0 where s0: "elemAt (Split line '', '') 0 = Inr s0"
    using assms by (auto simp: getPacketStats_def Let_def split: sum.splits)
  obtain k0 where k0: "elemAt (Split s0 '' '') 0 = Inr k0"
    using assms s0 by (auto simp: getPacketStats_def Let_def split: sum.splits)
  have "Atoi k0 = (t1, None)"
    using assms s0 k0
    by (auto simp: getPacketStats_def Let_def split: sum.splits prod.splits if_splits)
  moreover have "firstPiece line '', '' = s0"
    using elemAt_0 [OF s0] by (simp add: firstPiece_def)
  moreover have "firstPiece s0 '' '' = k0"
    using elemAt_0 [OF k0] by (simp add: firstPiece_def)
  ultimately show ?thesis by (simp add: transmittedCount_def)
qed

lemma processLines_count:
  "processLines ops ls (t0, r0, ttl0, m0, a0, x0, s0, e0) = Inr (t, r, ttl, m, a, x, s, None)
   \<Longrightarrow> t = t0 \<or> (\<exists>l\<in>set ls. summaryLine l \<and> transmittedCount l = (t, None))"
proof (induction ls arbitrary: t0 r0 ttl0 m0 a0 x0 s0 e0)
  case Nil
  then show ?case by simp
next
  case (Cons l ls)
  show ?case
  proof (cases "ttl0 = - 1 \<and> Contains l ''ttl=''")
    case True
    with Cons.prems obtain ttl1 e1 where
      "processLines ops ls (t0, r0, ttl1, m0, a0, x0, s0, e1) = Inr (t, r, ttl, m, a, x, s, None)"
      by (auto split: sum.splits)
    from Cons.IH [OF this] show ?thesis by auto
  next
    case nottl: False
    show ?thesis
    proof (cases "summaryLine l")
      case True
      with nottl Cons.prems obtain t1 r1 where
        g: "getPacketStats l t0 r0 = Inr (t1, r1, None)" and
        r: "processLines ops ls (t1, r1, ttl0, m0, a0, x0, s0, None) = Inr (t, r, ttl, m, a, x, s, None)"
        by (auto simp: summaryLine_def split: sum.splits if_splits)
      from Cons.IH [OF r] getPacketStats_count [OF g] True show ?thesis by auto
    next
      case nosum: False
      show ?thesis
      proof (cases "Contains l ''min/avg/max''")
        case True
        with nottl nosum Cons.prems obtain m1 a1 x1 s1 where
          "processLines ops ls (t0, r0, ttl0, m1, a1, x1, s1, None) = Inr (t, r, ttl, m, a, x, s, None)"
          by (auto simp: summaryLine_def split: sum.splits if_splits)
        from Cons.IH [OF this] show ?thesis by auto
      next
        case False
        with nottl nosum Cons.prems have
          "processLines ops ls (t0, r0, ttl0, m0, a0, x0, s0, e0) = Inr (t, r, ttl, m, a, x, s, None)"
          by (auto simp: summaryLine_def)
        from Cons.IH [OF this] show ?thesis by auto
      qed
    qed
  qed
qed

lemma processLines_summary:
  "processLines ops ls (t0, r0, ttl0, m0, a0, x0, s0, e0) = Inr (t, r, ttl, m, a, x, s, None)
   \<Longrightarrow> \<exists>l\<in>set ls. summaryLine l \<and> \<not> Contains l ''ttl=''
   \<Longrightarrow> \<exists>l\<in>set ls. summaryLine l \<and> transmittedCount l = (t, None)"
proof (induction ls arbitrary: t0 r0 ttl0 m0 a0 x0 s0 e0)
  case Nil
  then show ?case by simp
next
  case (Cons l ls)
  show ?case
  proof (cases "summaryLine l \<and> \<not> Contains l ''ttl=''")
    case True
    with Cons.prems(1) obtain t1 r1 where
      g: "getPacketStats l t0 r0 = Inr (t1, r1, None)" and
      r: "processLines ops ls (t1, r1, ttl0, m0, a0, x0, s0, None) = Inr (t, r, ttl, m, a, x, s, None)"
      by (auto simp: summaryLine_def split: sum.splits if_splits)
    from processLines_count [OF r] getPacketStats_count [OF g] True show ?thesis by auto
  next
    case False
    with Cons.prems(2) have later: "\<exists>l\<in>set ls. summaryLine l \<and> \<not> Contains l ''ttl=''"
      by auto
    from Cons.prems(1) obtain t1 r1 ttl1 m1 a1 x1 s1 e1 where
      "processLines ops ls (t1, r1, ttl1, m1, a1, x1, s1, e1) = Inr (t, r, ttl, m, a, x, s, None)"
      by (auto split: sum.splits if_splits)
    from Cons.IH [OF this later] show ?thesis by auto
  qed
qed

text \<open>
  Claim C4, as the code has it. When \<open>processPingOutput\<close> returns a nil error on a text
  that has a summary line (without \<open>ttl=\<close>), the transmitted count it returns is the
  leading integer of a summary line of the text, as \<open>Atoi\<close> reads it. No bound is put on that
  integer: the count is at least 1 only if the line says so.
\<close>

theorem transmitted_is_count_of_summary_line:
  assumes "processPingOutput ops out = Inr (t, r, ttl, mn, av, mx, sd, None)"
    and "\<exists>l\<in>set (Split out newline). summaryLine l \<and> \<not> Contains l ''ttl=''"
  shows "\<exists>l\<in>set (Split out newline). summaryLine l \<and> transmittedCount l = (t, None)"
  using assms unfolding processPingOutput_def by (rule processLines_summary)

lemma zeroSummary_line:
  "Split zeroSummary newline = [zeroSummary] \<and> summaryLine zeroSummary
   \<and> \<not> Contains zeroSummary ''ttl='' \<and> transmittedCount zeroSummary = (0, None)"
  by code_simp

lemma dec_zeroSummary:
  "processPingOutput dec_ops zeroSummary =
     Inr (0, 0, - 1, Some (- 1), Some (- 1), Some (- 1), Some (- 1), None)"
  by code_simp

theorem transmitted_is_count_of_summary_line_witness:
  "processPingOutput dec_ops zeroSummary =
     Inr (0, 0, - 1, Some (- 1), Some (- 1), Some (- 1), Some (- 1), None)
   \<and> (\<exists>l\<in>set (Split zeroSummary newline). summaryLine l \<and> \<not> Contains l ''ttl='')
   \<and> (\<exists>l\<in>set (Split zeroSummary newline). summaryLine l \<and> transmittedCount l = (0, None))"
proof -
  have h: "\<exists>l\<in>set (Split zeroSummary newline). summaryLine l \<and> \<not> Contains l ''ttl=''"
    using zeroSummary_line by simp
  from dec_zeroSummary h transmitted_is_count_of_summary_line [OF dec_zeroSummary h]
  show ?thesis by blast
qed

text \<open>
  The summary line with 0 packets transmitted parses with a nil error and the transmitted
  count 0, whatever the float64 operations are.
\<close>

lemma zero_summary_parses:
  "processPingOutput ops zeroSummary =
     Inr (0, 0, - 1, fl_of_int ops (- 1), fl_of_int ops (- 1), fl_of_int ops (- 1),
          fl_of_int ops (- 1), None)"
proof -
  have "getPacketStats zeroSummary 0 0 = Inr (0, 0, None)"
    by code_simp
  then show ?thesis
    using zeroSummary_line by (simp add: processPingOutput_def summaryLine_def)
qed

text \<open>
  The claim as the specification states it fails: in the decimal interpretation the
  summary line with 0 packets transmitted parses with a nil error and the transmitted
  count 0, and the division of the caller is a division by zero.
\<close>

theorem zero_transmitted_parses:
  "processPingOutput dec_ops zeroSummary =
     Inr (0, 0, - 1, Some (- 1), Some (- 1), Some (- 1), Some (- 1), None)
   \<and> fl_div dec_ops (fl_of_int dec_ops (wrap64 (0 - 0))) (fl_of_int dec_ops 0) = None"
  by code_simp

text \<open>
  Claim C2 does not hold of the code. A text whose only recognised line is a reply line
  with \<open>ttl=54\<close> is parsed with a nil error (transmitted and received stay 0), and so is a
  text whose only line is the round-trip line: \<open>getTTL\<close> and \<open>checkRoundTripTimeStats\<close>
  overwrite the error that only a summary line was meant to clear.
\<close>

theorem no_summary_line_is_accepted:
  "processPingOutput ops sampleReply =
     Inr (0, 0, 54, fl_of_int ops (- 1), fl_of_int ops (- 1), fl_of_int ops (- 1),
          fl_of_int ops (- 1), None)
   \<and> processPingOutput dec_ops sampleRTT =
     Inr (0, 0, - 1, Some (34843 / 1000), Some (43508 / 1000), Some (52172 / 1000),
          Some (8664 / 1000), None)"
proof -
  have s: "Split sampleReply newline = [sampleReply]"
    by code_simp
  have "processPingOutput ops sampleReply =
     Inr (0, 0, 54, fl_of_int ops (- 1), fl_of_int ops (- 1), fl_of_int ops (- 1),
          fl_of_int ops (- 1), None)"
    unfolding processPingOutput_def s using sampleReply_ttl by simp
  moreover have "processPingOutput dec_ops sampleRTT =
     Inr (0, 0, - 1, Some (34843 / 1000), Some (43508 / 1000), Some (52172 / 1000),
          Some (8664 / 1000), None)"
    by code_simp
  ultimately show ?thesis by simp
qed


subsection \<open>Lines that do not have the expected shape\<close>

lemma SplitFrom_no_sep: "\<not> Contains s sep \<Longrightarrow> SplitFrom sep cur s = [cur @ s]"
  by (induction s arbitrary: cur) auto

lemma Split_no_sep: "sep \<noteq> [] \<Longrightarrow> \<not> Contains s sep \<Longrightarrow> Split s sep = [s]"
  by (simp add: Split_def SplitFrom_no_sep)

lemma SplitFrom_nonempty: "SplitFrom sep cur s \<noteq> []"
  by (induction sep cur s rule: SplitFrom.induct) auto

lemma elemAt_Split_0: "sep \<noteq> [] \<Longrightarrow> elemAt (Split s sep) 0 = Inr (firstPiece s sep)"
  using SplitFrom_nonempty [of sep "[]" s]
  by (cases "SplitFrom sep [] s") (simp_all add: Split_def firstPiece_def elemAt_def)

lemma getPacketStats_panics:
  assumes "\<not> Contains line '', ''" and "snd (Atoi (firstPiece line '' '')) = None"
  shows "getPacketStats line t0 r0 = Inl IndexOutOfRange"
proof -
  have s: "Split line '', '' = [line]"
    using assms(1) by (intro Split_no_sep) auto
  have k: "elemAt (Split line '' '') 0 = Inr (firstPiece line '' '')"
    by (intro elemAt_Split_0) auto
  have e0: "elemAt [line] 0 = Inr line" and e1: "elemAt [line] (Suc 0) = Inl IndexOutOfRange"
    by (simp_all add: elemAt_def)
  obtain n where "Atoi (firstPiece line '' '') = (n, None)"
    using assms(2) by (cases "Atoi (firstPiece line '' '')") auto
  then show ?thesis
    by (simp add: getPacketStats_def s k e0 e1)
qed

lemma takeWhile_hd: "takeWhile P xs \<noteq> [] \<Longrightarrow> \<exists>d ds. xs = d # ds \<and> P d"
  by (cases xs) (auto split: if_splits)

lemma HasPrefix_snoc:
  assumes "HasPrefix s p" and "drop (length p) s = d # ds"
  shows "HasPrefix s (p @ [d])"
proof -
  have "take (length p + 1) s = take (length p) s @ take 1 (drop (length p) s)"
    by (rule take_add)
  with assms show ?thesis by (simp add: HasPrefix_def)
qed

lemma ttl_digit_prefix:
  assumes "HasPrefix s ''ttl=''" and "takeWhile isDigit (drop 4 s) \<noteq> []"
  shows "\<exists>d. isDigit d \<and> HasPrefix s (''ttl='' @ [d])"
proof -
  from takeWhile_hd [OF assms(2)] obtain d ds where d: "drop 4 s = d # ds" "isDigit d"
    by blast
  have "length ''ttl='' = 4"
    by simp
  with d(1) have "drop (length ''ttl='') s = d # ds"
    by (simp only:)
  from HasPrefix_snoc [OF assms(1) this] d(2) show ?thesis by blast
qed

lemma no_ttl_match:
  "\<forall>d. isDigit d \<longrightarrow> \<not> Contains line (''ttl='' @ [d]) \<Longrightarrow> ttlLine_FindStringSubmatch line = []"
proof (induction line)
  case Nil
  then show ?case by simp
next
  case (Cons c cs)
  have "\<not> (HasPrefix (c # cs) ''ttl='' \<and> takeWhile isDigit (drop 4 (c # cs)) \<noteq> [])"
    using ttl_digit_prefix [of "c # cs"] Cons.prems by auto
  moreover have "ttlLine_FindStringSubmatch cs = []"
    using Cons by auto
  ultimately show ?case by (auto simp: Let_def)
qed

lemma getTTL_panics: "ttlWithoutDigit line \<Longrightarrow> getTTL line = Inl IndexOutOfRange"
proof -
  assume "ttlWithoutDigit line"
  then have "\<forall>d. isDigit d \<longrightarrow> \<not> Contains line (''ttl='' @ [d])"
    by (simp add: ttlWithoutDigit_def isDigit_def list_all_iff)
  from no_ttl_match [OF this] show ?thesis
    by (simp add: getTTL_def elemAt_def)
qed

lemma checkRoundTripTimeStats_panics:
  "length (Split line '' '') < 4 \<Longrightarrow>
   checkRoundTripTimeStats ops line m0 a0 x0 s0 = Inl IndexOutOfRange"
  by (simp add: checkRoundTripTimeStats_def elemAt_def)

text \<open>
  Claim C9. The parser is not total: it indexes token positions that need not exist. If
  the first line of the text contains \<open>ttl=\<close> nowhere followed by a digit, or is a summary
  line without \<open>", "\<close> whose first token is an integer, or is a \<open>min/avg/max\<close> line with
  fewer than four space-separated tokens, \<open>processPingOutput\<close> panics with an index out of
  range (in \<open>getTTL\<close>, \<open>getPacketStats\<close> and \<open>checkRoundTripTimeStats\<close>).
\<close>

theorem parser_panics_on_malformed_lines:
  assumes "Split out newline = line # rest"
  shows "(ttlWithoutDigit line \<longrightarrow> processPingOutput ops out = Inl IndexOutOfRange)
       \<and> (\<not> Contains line ''ttl='' \<and> summaryLine line \<and> \<not> Contains line '', ''
            \<and> snd (Atoi (firstPiece line '' '')) = None
          \<longrightarrow> getPacketStats line 0 0 = Inl IndexOutOfRange
              \<and> processPingOutput ops out = Inl IndexOutOfRange)
       \<and> (\<not> Contains line ''ttl='' \<and> \<not> summaryLine line \<and> Contains line ''min/avg/max''
            \<and> length (Split line '' '') < 4
          \<longrightarrow> processPingOutput ops out = Inl IndexOutOfRange)"
  unfolding processPingOutput_def assms
  by (auto simp: getTTL_panics getPacketStats_panics checkRoundTripTimeStats_panics
        summaryLine_def ttlWithoutDigit_def)

lemma malformed_lines:
  "Split lineTTLNoDigit newline = [lineTTLNoDigit] \<and> ttlWithoutDigit lineTTLNoDigit
   \<and> Split lineNoSeparator newline = [lineNoSeparator]
   \<and> \<not> Contains lineNoSeparator ''ttl='' \<and> summaryLine lineNoSeparator
   \<and> \<not> Contains lineNoSeparator '', ''
   \<and> snd (Atoi (firstPiece lineNoSeparator '' '')) = None
   \<and> Split lineShortRTT newline = [lineShortRTT]
   \<and> \<not> Contains lineShortRTT ''ttl='' \<and> \<not> summaryLine lineShortRTT
   \<and> Contains lineShortRTT ''min/avg/max'' \<and> length (Split lineShortRTT '' '') < 4"
  by code_simp

theorem parser_panics_on_malformed_lines_witness:
  "Split lineTTLNoDigit newline = [lineTTLNoDigit] \<and> ttlWithoutDigit lineTTLNoDigit
   \<and> processPingOutput dec_ops lineTTLNoDigit = Inl IndexOutOfRange
   \<and> Split lineNoSeparator newline = [lineNoSeparator]
   \<and> \<not> Contains lineNoSeparator ''ttl='' \<and> summaryLine lineNoSeparator
   \<and> \<not> Contains lineNoSeparator '', ''
   \<and> snd (Atoi (firstPiece lineNoSeparator '' '')) = None
   \<and> getPacketStats lineNoSeparator 0 0 = Inl IndexOutOfRange
   \<and> processPingOutput dec_ops lineNoSeparator = Inl IndexOutOfRange
   \<and> Split lineShortRTT newline = [lineShortRTT]
   \<and> \<not> Contains lineShortRTT ''ttl='' \<and> \<not> summaryLine lineShortRTT
   \<and> Contains lineShortRTT ''min/avg/max'' \<and> length (Split lineShortRTT '' '') < 4
   \<and> processPingOutput dec_ops lineShortRTT = Inl IndexOutOfRange"
proof -
  have a: "Split lineTTLNoDigit newline = [lineTTLNoDigit]"
    and b: "Split lineNoSeparator newline = [lineNoSeparator]"
    and c: "Split lineShortRTT newline = [lineShortRTT]"
    using malformed_lines by simp_all
  from malformed_lines
    parser_panics_on_malformed_lines [OF a, where ops = dec_ops]
    parser_panics_on_malformed_lines [OF b, where ops = dec_ops]
    parser_panics_on_malformed_lines [OF c, where ops = dec_ops]
  show ?thesis by blast
qed

subsection \<open>The round-trip line\<close>

lemma rtt_error:
  assumes "elemAt (Split line '' '') 3 = Inr stats"
    and "length (Split stats ''/'') = 3 \<or> length (Split stats ''/'') = 4"
    and "\<exists>e\<in>set (Split stats ''/''). snd (ParseFloat ops e) \<noteq> None"
  shows "\<exists>m1 a1 x1 s1 err.
           checkRoundTripTimeStats ops line m0 a0 x0 s0 = Inr (m1, a1, x1, s1, Some err)"
proof -
  from assms(2) obtain a b c ds where
    d: "Split stats ''/'' = a # b # c # ds" "ds = [] \<or> (\<exists>d. ds = [d])"
    by (auto simp: eval_nat_numeral length_Suc_conv)
  from assms(3) obtain e where e: "e \<in> set (Split stats ''/'')" "snd (ParseFloat ops e) \<noteq> None"
    by blast
  then obtain v err where v: "ParseFloat ops e = (v, Some err)"
    by (cases "ParseFloat ops e") auto
  show ?thesis
    using assms(1) d e(1) v
    by (auto simp: checkRoundTripTimeStats_def elemAt_def Let_def split: prod.splits)
qed


text \<open>
  Claim C7, as the code has it. Take a line whose fourth token is a \<open>/\<close>-separated list,
  the tokens being the pieces of \<open>strings.Split(line, " ")\<close>: the line is cut at each single
  space, so that two spaces in a row give an empty token and a tab separates nothing. If
  the list has three entries that \<open>ParseFloat\<close> accepts, \<open>checkRoundTripTimeStats\<close> returns
  them in order as min, avg and max and leaves stddev as it was; that is the sentinel
  \<open>-1.0\<close> when the line is the whole text. If it has four such entries, the fourth is
  stddev. If it has three or four entries and \<open>ParseFloat\<close> rejects one of them, the error
  is not nil, and the parser returns it at once, whatever lines follow. The statements
  about \<open>processLines\<close> and \<open>processPingOutput\<close> are for a line that contains
  \<open>min/avg/max\<close> and is not taken for a ttl or a summary line.
\<close>

theorem round_trip_line_values:
  assumes "elemAt (Split line '' '') 3 = Inr stats"
  shows "(Split stats ''/'' = [a, b, c] \<and> ParseFloat ops a = (x, None)
            \<and> ParseFloat ops b = (y, None) \<and> ParseFloat ops c = (z, None)
          \<longrightarrow> checkRoundTripTimeStats ops line m0 a0 x0 s0 = Inr (x, y, z, s0, None)
              \<and> (roundTripLine line
                  \<longrightarrow> processLines ops (line # rest) (t0, r0, ttl0, m0, a0, x0, s0, e0)
                        = processLines ops rest (t0, r0, ttl0, x, y, z, s0, None)
                      \<and> (Split out newline = [line]
                          \<longrightarrow> processPingOutput ops out
                                = Inr (0, 0, - 1, x, y, z, fl_of_int ops (- 1), None))))
       \<and> (Split stats ''/'' = [a, b, c, d] \<and> ParseFloat ops a = (x, None)
            \<and> ParseFloat ops b = (y, None) \<and> ParseFloat ops c = (z, None)
            \<and> ParseFloat ops d = (w, None)
          \<longrightarrow> checkRoundTripTimeStats ops line m0 a0 x0 s0 = Inr (x, y, z, w, None)
              \<and> (roundTripLine line
                  \<longrightarrow> processLines ops (line # rest) (t0, r0, ttl0, m0, a0, x0, s0, e0)
                        = processLines ops rest (t0, r0, ttl0, x, y, z, w, None)))
       \<and> ((length (Split stats ''/'') = 3 \<or> length (Split stats ''/'') = 4)
            \<and> (\<exists>e\<in>set (Split stats ''/''). snd (ParseFloat ops e) \<noteq> None)
          \<longrightarrow> (\<exists>m1 a1 x1 s1 err.
                checkRoundTripTimeStats ops line m0 a0 x0 s0 = Inr (m1, a1, x1, s1, Some err)
                \<and> (roundTripLine line
                    \<longrightarrow> processLines ops (line # rest) (t0, r0, ttl0, m0, a0, x0, s0, e0)
                          = Inr (t0, r0, ttl0, m1, a1, x1, s1, Some err))))"
proof -
  have br: "\<not> Contains line ''ttl=''"
      "(Contains line ''transmitted'' \<and> Contains line ''received'') = False"
      "Contains line ''min/avg/max''"
    if "roundTripLine line"
    using that by (simp_all add: roundTripLine_def summaryLine_def)
  have three: "checkRoundTripTimeStats ops line m0 a0 x0 s0 = Inr (x, y, z, s0, None)
              \<and> (roundTripLine line
                  \<longrightarrow> processLines ops (line # rest) (t0, r0, ttl0, m0, a0, x0, s0, e0)
                        = processLines ops rest (t0, r0, ttl0, x, y, z, s0, None)
                      \<and> (Split out newline = [line]
                          \<longrightarrow> processPingOutput ops out
                                = Inr (0, 0, - 1, x, y, z, fl_of_int ops (- 1), None)))"
    if h: "Split stats ''/'' = [a, b, c] \<and> ParseFloat ops a = (x, None)
            \<and> ParseFloat ops b = (y, None) \<and> ParseFloat ops c = (z, None)"
  proof -
    have r: "checkRoundTripTimeStats ops line m1 a1 x1 s1 = Inr (x, y, z, s1, None)"
      for m1 a1 x1 s1
      using assms h by (intro rtt_three) auto
    show ?thesis
      by (simp add: r br processPingOutput_def)
  qed
  have four: "checkRoundTripTimeStats ops line m0 a0 x0 s0 = Inr (x, y, z, w, None)
              \<and> (roundTripLine line
                  \<longrightarrow> processLines ops (line # rest) (t0, r0, ttl0, m0, a0, x0, s0, e0)
                        = processLines ops rest (t0, r0, ttl0, x, y, z, w, None))"
    if h: "Split stats ''/'' = [a, b, c, d] \<and> ParseFloat ops a = (x, None)
            \<and> ParseFloat ops b = (y, None) \<and> ParseFloat ops c = (z, None)
            \<and> ParseFloat ops d = (w, None)"
  proof -
    have r: "checkRoundTripTimeStats ops line m0 a0 x0 s0 = Inr (x, y, z, w, None)"
      using assms h by (intro rtt_four) auto
    show ?thesis
      by (simp add: r br)
  qed
  have bad: "\<exists>m1 a1 x1 s1 err.
                checkRoundTripTimeStats ops line m0 a0 x0 s0 = Inr (m1, a1, x1, s1, Some err)
                \<and> (roundTripLine line
                    \<longrightarrow> processLines ops (line # rest) (t0, r0, ttl0, m0, a0, x0, s0, e0)
                          = Inr (t0, r0, ttl0, m1, a1, x1, s1, Some err))"
    if h: "(length (Split stats ''/'') = 3 \<or> length (Split stats ''/'') = 4)
            \<and> (\<exists>e\<in>set (Split stats ''/''). snd (ParseFloat ops e) \<noteq> None)"
  proof -
    from assms h obtain m1 a1 x1 s1 err where
      r: "checkRoundTripTimeStats ops line m0 a0 x0 s0 = Inr (m1, a1, x1, s1, Some err)"
      using rtt_error [of line stats ops m0 a0 x0 s0] by blast
    have "roundTripLine line
          \<longrightarrow> processLines ops (line # rest) (t0, r0, ttl0, m0, a0, x0, s0, e0)
                = Inr (t0, r0, ttl0, m1, a1, x1, s1, Some err)"
      by (simp add: r br)
    with r show ?thesis by blast
  qed
  from three four bad show ?thesis by blast
qed

lemma rtt_lines_shape:
  "elemAt (Split sampleRTT3 '' '') 3 = Inr ''34.843/43.508/52.172''
   \<and> roundTripLine sampleRTT3
   \<and> Split ''34.843/43.508/52.172'' ''/'' = [''34.843'', ''43.508'', ''52.172'']
   \<and> Split sampleRTT3 newline = [sampleRTT3]
   \<and> elemAt (Split sampleRTT '' '') 3 = Inr ''34.843/43.508/52.172/8.664''
   \<and> roundTripLine sampleRTT
   \<and> Split ''34.843/43.508/52.172/8.664'' ''/'' = [''34.843'', ''43.508'', ''52.172'', ''8.664'']
   \<and> elemAt (Split sampleRTTBad '' '') 3 = Inr ''34.843/oops/52.172/8.664''
   \<and> roundTripLine sampleRTTBad
   \<and> (length (Split ''34.843/oops/52.172/8.664'' ''/'') = 3
        \<or> length (Split ''34.843/oops/52.172/8.664'' ''/'') = 4)"
  by code_simp

lemma dec_rejects_oops:
  "\<exists>e\<in>set (Split ''34.843/oops/52.172/8.664'' ''/''). snd (ParseFloat dec_ops e) \<noteq> None"
proof -
  have "''oops'' \<in> set (Split ''34.843/oops/52.172/8.664'' ''/'')"
    by code_simp
  moreover have "snd (ParseFloat dec_ops ''oops'') \<noteq> None"
    by code_simp
  ultimately show ?thesis by blast
qed

theorem round_trip_line_values_witness:
  "elemAt (Split sampleRTT3 '' '') 3 = Inr ''34.843/43.508/52.172''
   \<and> roundTripLine sampleRTT3
   \<and> Split ''34.843/43.508/52.172'' ''/'' = [''34.843'', ''43.508'', ''52.172'']
   \<and> Split sampleRTT3 newline = [sampleRTT3]
   \<and> checkRoundTripTimeStats dec_ops sampleRTT3 (Some (- 1)) (Some (- 1)) (Some (- 1)) (Some (- 1))
       = Inr (Some (34843 / 1000), Some (43508 / 1000), Some (52172 / 1000), Some (- 1), None)
   \<and> processPingOutput dec_ops sampleRTT3
       = Inr (0, 0, - 1, Some (34843 / 1000), Some (43508 / 1000), Some (52172 / 1000),
              fl_of_int dec_ops (- 1), None)
   \<and> elemAt (Split sampleRTT '' '') 3 = Inr ''34.843/43.508/52.172/8.664''
   \<and> roundTripLine sampleRTT
   \<and> Split ''34.843/43.508/52.172/8.664'' ''/'' = [''34.843'', ''43.508'', ''52.172'', ''8.664'']
   \<and> checkRoundTripTimeStats dec_ops sampleRTT (Some (- 1)) (Some (- 1)) (Some (- 1)) (Some (- 1))
       = Inr (Some (34843 / 1000), Some (43508 / 1000), Some (52172 / 1000),
              Some (8664 / 1000), None)
   \<and> elemAt (Split sampleRTTBad '' '') 3 = Inr ''34.843/oops/52.172/8.664''
   \<and> roundTripLine sampleRTTBad
   \<and> (\<exists>e\<in>set (Split ''34.843/oops/52.172/8.664'' ''/''). snd (ParseFloat dec_ops e) \<noteq> None)
   \<and> (\<exists>m1 a1 x1 s1 err.
        checkRoundTripTimeStats dec_ops sampleRTTBad (Some (- 1)) (Some (- 1)) (Some (- 1))
          (Some (- 1)) = Inr (m1, a1, x1, s1, Some err)
        \<and> processLines dec_ops [sampleRTTBad, sampleSummary]
            (0, 0, - 1, Some (- 1), Some (- 1), Some (- 1), Some (- 1), None)
            = Inr (0, 0, - 1, m1, a1, x1, s1, Some err))"
proof -
  note s = rtt_lines_shape
  have t3: "elemAt (Split sampleRTT3 '' '') 3 = Inr ''34.843/43.508/52.172''"
    and t4: "elemAt (Split sampleRTT '' '') 3 = Inr ''34.843/43.508/52.172/8.664''"
    and tb: "elemAt (Split sampleRTTBad '' '') 3 = Inr ''34.843/oops/52.172/8.664''"
    using s by simp_all
  have c3: "checkRoundTripTimeStats dec_ops sampleRTT3 (Some (- 1)) (Some (- 1)) (Some (- 1))
               (Some (- 1))
             = Inr (Some (34843 / 1000), Some (43508 / 1000), Some (52172 / 1000), Some (- 1), None)
           \<and> processPingOutput dec_ops sampleRTT3
             = Inr (0, 0, - 1, Some (34843 / 1000), Some (43508 / 1000), Some (52172 / 1000),
                    fl_of_int dec_ops (- 1), None)"
    using s dec_sample_floats
      round_trip_line_values [OF t3, where ops = dec_ops and a = "''34.843''"
        and b = "''43.508''" and c = "''52.172''" and x = "Some (34843 / 1000)"
        and y = "Some (43508 / 1000)" and z = "Some (52172 / 1000)" and out = sampleRTT3
        and ?s0.0 = "Some (- 1)" and ?m0.0 = "Some (- 1)" and ?a0.0 = "Some (- 1)"
        and ?x0.0 = "Some (- 1)" and ?t0.0 = 0 and ?r0.0 = 0 and ?ttl0.0 = "- 1"
        and ?e0.0 = None and rest = "[]" and d = "[]" and w = None]
    by blast
  have c4: "checkRoundTripTimeStats dec_ops sampleRTT (Some (- 1)) (Some (- 1)) (Some (- 1))
               (Some (- 1))
             = Inr (Some (34843 / 1000), Some (43508 / 1000), Some (52172 / 1000),
                    Some (8664 / 1000), None)"
    using s dec_sample_floats
      round_trip_line_values [OF t4, where ops = dec_ops and a = "''34.843''"
        and b = "''43.508''" and c = "''52.172''" and d = "''8.664''"
        and x = "Some (34843 / 1000)" and y = "Some (43508 / 1000)"
        and z = "Some (52172 / 1000)" and w = "Some (8664 / 1000)" and out = sampleRTT
        and ?s0.0 = "Some (- 1)" and ?m0.0 = "Some (- 1)" and ?a0.0 = "Some (- 1)"
        and ?x0.0 = "Some (- 1)" and ?t0.0 = 0 and ?r0.0 = 0 and ?ttl0.0 = "- 1"
        and ?e0.0 = None and rest = "[]"]
    by blast
  have cb: "\<exists>m1 a1 x1 s1 err.
        checkRoundTripTimeStats dec_ops sampleRTTBad (Some (- 1)) (Some (- 1)) (Some (- 1))
          (Some (- 1)) = Inr (m1, a1, x1, s1, Some err)
        \<and> processLines dec_ops [sampleRTTBad, sampleSummary]
            (0, 0, - 1, Some (- 1), Some (- 1), Some (- 1), Some (- 1), None)
            = Inr (0, 0, - 1, m1, a1, x1, s1, Some err)"
    using s dec_rejects_oops
      round_trip_line_values [OF tb, where ops = dec_ops and a = "[]" and b = "[]"
        and c = "[]" and d = "[]" and x = None and y = None and z = None and w = None
        and out = "[]"
        and ?s0.0 = "Some (- 1)" and ?m0.0 = "Some (- 1)" and ?a0.0 = "Some (- 1)"
        and ?x0.0 = "Some (- 1)" and ?t0.0 = 0 and ?r0.0 = 0 and ?ttl0.0 = "- 1"
        and ?e0.0 = None and rest = "[sampleSummary]"]
    by blast
  from s dec_rejects_oops c3 c4 cb show ?thesis by blast
qed


text \<open>
  The claim as the specification states it, with whitespace-delimited tokens, fails. The
  round-trip line with two spaces before the numbers contains \<open>min/avg/max\<close> and its
  fourth whitespace-delimited token is the list of four numbers that \<open>ParseFloat\<close>
  accepts, but the fourth piece of the split at single spaces is empty:
  \<open>checkRoundTripTimeStats\<close> and \<open>processPingOutput\<close> return the syntax error of
  \<open>ParseFloat("")\<close> and none of the four numbers.
\<close>

theorem double_space_line_is_rejected:
  "Contains doubleSpaceRTT ''min/avg/max''
   \<and> elemAt (whitespaceTokens doubleSpaceRTT) 3 = Inr ''34.843/43.508/52.172/8.664''
   \<and> Split ''34.843/43.508/52.172/8.664'' ''/'' = [''34.843'', ''43.508'', ''52.172'', ''8.664'']
   \<and> ParseFloat dec_ops ''34.843'' = (Some (34843 / 1000), None)
   \<and> ParseFloat dec_ops ''43.508'' = (Some (43508 / 1000), None)
   \<and> ParseFloat dec_ops ''52.172'' = (Some (52172 / 1000), None)
   \<and> ParseFloat dec_ops ''8.664'' = (Some (8664 / 1000), None)
   \<and> elemAt (Split doubleSpaceRTT '' '') 3 = Inr []
   \<and> checkRoundTripTimeStats dec_ops doubleSpaceRTT (Some (- 1)) (Some (- 1)) (Some (- 1))
        (Some (- 1))
       = Inr (Some 0, Some (- 1), Some (- 1), Some (- 1),
              Some (NumError ''ParseFloat'' [] ErrSyntax))
   \<and> processPingOutput dec_ops doubleSpaceRTT
       = Inr (0, 0, - 1, Some 0, Some (- 1), Some (- 1), Some (- 1),
              Some (NumError ''ParseFloat'' [] ErrSyntax))"
  by code_simp

end
